theory Spec2Isabelle
  imports Complex_Main
begin

section \<open>Vital readings and thresholds (integrations/firebase/vitals.ts)\<close>

text \<open>
  A JavaScript \<open>number\<close> is modelled as a real; \<open>NaN\<close> and the infinities are outside
  the model. An optional field \<open>f?: T\<close> is a \<open>T option\<close>, with \<open>None\<close> for
  \<open>undefined\<close> (and for \<open>null\<close> where the source stores it). Dates and server
  timestamps are natural numbers. Field names that occur in several interfaces of the
  source carry a prefix here (\<open>reading_id\<close> for \<open>VitalReading.id\<close> and so on).
\<close>

record BloodPressure =
  systolic :: real
  diastolic :: real

record VitalReading =
  reading_id :: "string option"
  patientId :: string
  heartRate :: "real option"
  oxygenSaturation :: "real option"
  temperature :: "real option"
  bloodPressure :: "BloodPressure option"
  timestamp :: "nat option"
  deviceId :: "string option"
  isEmergency :: "bool option"

record MinMax =
  range_min :: real
  range_max :: real

record VitalThresholds =
  th_heartRate :: MinMax
  th_oxygenSaturation_min :: real
  th_temperature :: MinMax
  th_systolic :: MinMax
  th_diastolic :: MinMax

definition DEFAULT_THRESHOLDS :: VitalThresholds where
  "DEFAULT_THRESHOLDS =
     \<lparr> th_heartRate = \<lparr> range_min = 60, range_max = 100 \<rparr>,
       th_oxygenSaturation_min = 90,
       th_temperature = \<lparr> range_min = 968 / 10, range_max = 1004 / 10 \<rparr>,
       th_systolic = \<lparr> range_min = 90, range_max = 140 \<rparr>,
       th_diastolic = \<lparr> range_min = 60, range_max = 90 \<rparr> \<rparr>"

text \<open>
  \<open>checkVitalThresholds\<close> starts from \<open>isEmergency = false\<close> and runs four guarded
  blocks in order, each of which may set the flag. The first three test
  \<open>field !== undefined\<close>; the fourth tests the truthiness of the \<open>bloodPressure\<close> object,
  which holds for every object.
\<close>

definition checkVitalThresholds :: "VitalReading \<Rightarrow> VitalThresholds \<Rightarrow> bool" where
  "checkVitalThresholds reading thresholds =
     (let isEmergency0 = False;
          isEmergency1 =
            (case heartRate reading of
               None \<Rightarrow> isEmergency0
             | Some hr \<Rightarrow>
                 if hr < range_min (th_heartRate thresholds)
                    \<or> hr > range_max (th_heartRate thresholds)
                 then True else isEmergency0);
          isEmergency2 =
            (case oxygenSaturation reading of
               None \<Rightarrow> isEmergency1
             | Some ox \<Rightarrow>
                 if ox < th_oxygenSaturation_min thresholds then True else isEmergency1);
          isEmergency3 =
            (case temperature reading of
               None \<Rightarrow> isEmergency2
             | Some t \<Rightarrow>
                 if t < range_min (th_temperature thresholds)
                    \<or> t > range_max (th_temperature thresholds)
                 then True else isEmergency2);
          isEmergency4 =
            (case bloodPressure reading of
               None \<Rightarrow> isEmergency3
             | Some bp \<Rightarrow>
                 if systolic bp < range_min (th_systolic thresholds)
                    \<or> systolic bp > range_max (th_systolic thresholds)
                    \<or> diastolic bp < range_min (th_diastolic thresholds)
                    \<or> diastolic bp > range_max (th_diastolic thresholds)
                 then True else isEmergency3)
      in isEmergency4)"

text \<open>A reading that carries a patient reference and nothing else.\<close>

definition bare_reading :: "string \<Rightarrow> VitalReading" where
  "bare_reading pid =
     \<lparr> reading_id = None, patientId = pid, heartRate = None, oxygenSaturation = None,
       temperature = None, bloodPressure = None, timestamp = None, deviceId = None,
       isEmergency = None \<rparr>"

subsection \<open>The evaluator as the specification words it\<close>

text \<open>
  The specification's reading of the evaluator: every metric has a range with inclusive
  bounds (oxygen saturation only a lower bound), a present value violates its range when
  it is not inside, an absent value never does, and the reading is an emergency when any
  of its five metrics violates.
\<close>

definition inside :: "MinMax \<Rightarrow> real \<Rightarrow> bool" where
  "inside r x = (range_min r \<le> x \<and> x \<le> range_max r)"

fun violates :: "(real \<Rightarrow> bool) \<Rightarrow> real option \<Rightarrow> bool" where
  "violates ok None = False"
| "violates ok (Some x) = (\<not> ok x)"

definition classify_spec :: "VitalReading \<Rightarrow> VitalThresholds \<Rightarrow> bool" where
  "classify_spec reading thresholds =
     (violates (inside (th_heartRate thresholds)) (heartRate reading)
      \<or> violates ((\<le>) (th_oxygenSaturation_min thresholds)) (oxygenSaturation reading)
      \<or> violates (inside (th_temperature thresholds)) (temperature reading)
      \<or> violates (inside (th_systolic thresholds)) (map_option systolic (bloodPressure reading))
      \<or> violates (inside (th_diastolic thresholds))
           (map_option diastolic (bloodPressure reading)))"

section \<open>Severity of a vitals alert (integrations/emergency/sos.ts)\<close>

datatype severity = Low | Medium | High | Critical

text \<open>
  \<open>calculateVitalsSeverity\<close> guards each metric with \<open>if (vitalData.metric)\<close>: the
  block runs when the value is truthy, that is present and different from zero
  (\<open>hr \<noteq> 0\<close> below).
\<close>

definition calculateVitalsSeverity :: "VitalReading \<Rightarrow> severity" where
  "calculateVitalsSeverity vitalData =
     (let criticalCount0 = (0::nat);
          warningCount0 = (0::nat);
          (criticalCount1, warningCount1) =
            (case heartRate vitalData of
               None \<Rightarrow> (criticalCount0, warningCount0)
             | Some hr \<Rightarrow>
                 if hr \<noteq> 0 then
                   (if hr < 40 \<or> hr > 150 then (criticalCount0 + 1, warningCount0)
                    else if hr < 50 \<or> hr > 120 then (criticalCount0, warningCount0 + 1)
                    else (criticalCount0, warningCount0))
                 else (criticalCount0, warningCount0));
          (criticalCount2, warningCount2) =
            (case oxygenSaturation vitalData of
               None \<Rightarrow> (criticalCount1, warningCount1)
             | Some ox \<Rightarrow>
                 if ox \<noteq> 0 then
                   (if ox < 85 then (criticalCount1 + 1, warningCount1)
                    else if ox < 90 then (criticalCount1, warningCount1 + 1)
                    else (criticalCount1, warningCount1))
                 else (criticalCount1, warningCount1));
          (criticalCount3, warningCount3) =
            (case temperature vitalData of
               None \<Rightarrow> (criticalCount2, warningCount2)
             | Some t \<Rightarrow>
                 if t \<noteq> 0 then
                   (if t < 95 \<or> t > 104 then (criticalCount2 + 1, warningCount2)
                    else if t < 965 / 10 \<or> t > 101
                    then (criticalCount2, warningCount2 + 1)
                    else (criticalCount2, warningCount2))
                 else (criticalCount2, warningCount2))
      in if criticalCount3 \<ge> 2 then Critical
         else if criticalCount3 \<ge> 1 then High
         else if warningCount3 \<ge> 2 then Medium
         else Low)"

subsection \<open>The severity policy as the specification words it\<close>

text \<open>
  The specification counts the metrics of the record that lie in the critical band:
  heart rate below 40 or above 150, oxygen saturation below 85, temperature below 95 or
  above 104. A metric that is absent is in no band.
\<close>

fun in_band :: "(real \<Rightarrow> bool) \<Rightarrow> real option \<Rightarrow> nat" where
  "in_band band None = 0"
| "in_band band (Some x) = (if band x then 1 else 0)"

definition critical_band_count :: "VitalReading \<Rightarrow> nat" where
  "critical_band_count v =
     in_band (\<lambda>x. x < 40 \<or> x > 150) (heartRate v)
     + in_band (\<lambda>x. x < 85) (oxygenSaturation v)
     + in_band (\<lambda>x. x < 95 \<or> x > 104) (temperature v)"

text \<open>
  The warning band of the code: the \<open>else if\<close> branch of each metric, reached when
  the value is not in the critical band.
\<close>

definition warning_band_count :: "VitalReading \<Rightarrow> nat" where
  "warning_band_count v =
     in_band (\<lambda>x. \<not> (x < 40 \<or> x > 150) \<and> (x < 50 \<or> x > 120)) (heartRate v)
     + in_band (\<lambda>x. \<not> x < 85 \<and> x < 90) (oxygenSaturation v)
     + in_band (\<lambda>x. \<not> (x < 95 \<or> x > 104) \<and> (x < 965 / 10 \<or> x > 101)) (temperature v)"

section \<open>Alert documents and the external collaborators\<close>

datatype alert_type = manual_sos | vitals_critical | device_disconnect | fall_detected

datatype alert_status = Active | Acknowledged | Responding | Resolved

record LocationData =
  latitude :: real
  longitude :: real
  accuracy :: real
  altitude :: "real option"
  heading :: "real option"
  speed :: "real option"
  loc_timestamp :: nat

record EmergencyContact =
  contact_name :: string
  phoneNumber :: string
  isPrimary :: bool

text \<open>
  Of a medical profile the dispatch code reads only \<open>emergencyContacts\<close>, and only for
  truthiness. The profile comes out of the store through a cast, so the field may be
  missing at run time: it is an option here, and an empty array is present (truthy).
\<close>

record MedicalProfile =
  profile_patientId :: string
  bloodType :: "string option"
  allergies :: "string list"
  emergencyContacts :: "EmergencyContact list option"

text \<open>
  The \<open>emergencyAlerts\<close> collection receives documents of two shapes: the ones that
  \<open>createEmergencyAlert\<close> of firestore.ts writes (\<open>alertType\<close>, \<open>vitalReading\<close>,
  \<open>id\<close>, \<open>acknowledgedBy: null\<close>) and the ones the SOS manager writes (\<open>type\<close>,
  \<open>severity\<close>, \<open>location\<close>, \<open>vitalData\<close>, \<open>medicalProfile\<close>, \<open>message\<close>). One record
  with optional fields covers both; a field a writer does not set is \<open>None\<close>.
\<close>

record AlertDoc =
  alert_id :: "string option"
  alert_patientId :: string
  alert_type :: "alert_type option"
  alertType :: "string option"
  alert_severity :: "severity option"
  status :: alert_status
  location :: "LocationData option"
  vitalData :: "VitalReading option"
  vitalReading :: "VitalReading option"
  medicalProfile :: "MedicalProfile option"
  alert_message :: "string option"
  acknowledgedBy :: "string option"
  acknowledgedAt :: "nat option"
  responderId :: "string option"
  responseTime :: "nat option"
  resolvedAt :: "nat option"
  createdAt :: "nat option"
  updatedAt :: "nat option"

record NotificationData =
  title :: string
  body :: string
  userId :: string
  notif_patientId :: "string option"

text \<open>
  The fan-out legs are the three private notifier methods of the SOS manager; \<open>legs\<close>
  records each call of one of them, \<open>shown\<close> the notifications that the browser
  displayed.
\<close>

datatype leg = RespondersLeg | FamilyLeg | EmergencyContactsLeg

record World =
  vitals :: "(string \<times> VitalReading) list"
  emergencyAlerts :: "(string \<times> AlertDoc) list"
  legs :: "leg list"
  shown :: "NotificationData list"

datatype profile_outcome = ProfileThrows | ProfileNull | ProfileFound MedicalProfile

text \<open>
  What the collaborators outside the core answer during one call: the clock, the
  identifiers Firestore generates, whether a write to each collection goes through, the
  geolocation result (\<open>None\<close> when the promise is rejected: unsupported, denied,
  unavailable or timed out), the outcome of \<open>getMedicalProfile\<close>, and the state of the
  browser's notification interface.
\<close>

record Env =
  now :: nat
  newVitalId :: string
  newAlertId :: string
  vitalsWriteOk :: bool
  alertsWriteOk :: bool
  locationResult :: "LocationData option"
  profileResult :: profile_outcome
  notifSupported :: bool
  notifGranted :: bool
  notifShowOk :: bool

datatype error = StoreError | AlertDoesNotExist | AlertAlreadyAcknowledged

section \<open>The store wrappers (integrations/firebase/firestore.ts)\<close>

text \<open>
  \<open>addVitalReading\<close> of firestore.ts: \<open>setDoc\<close> of the data it is given, with a server
  timestamp and the generated identifier; a failed write is rethrown.
\<close>

definition addVitalToFirestore :: "Env \<Rightarrow> World \<Rightarrow> VitalReading \<Rightarrow> (error + string) \<times> World" where
  "addVitalToFirestore env w vitalData_in =
     (if vitalsWriteOk env
      then (Inr (newVitalId env),
            w\<lparr>vitals := vitals w @
                 [(newVitalId env,
                   vitalData_in\<lparr>timestamp := Some (now env),
                                 reading_id := Some (newVitalId env)\<rparr>)]\<rparr>)
      else (Inl StoreError, w))"

text \<open>
  \<open>createEmergencyAlert\<close> is called from vitals.ts only, with
  \<open>{patientId, vitalReading, alertType}\<close>; it adds \<open>id\<close>, \<open>status: 'active'\<close>,
  \<open>createdAt\<close> and the two \<open>null\<close> acknowledgement fields.
\<close>

definition createEmergencyAlert ::
    "Env \<Rightarrow> World \<Rightarrow> string \<Rightarrow> VitalReading \<Rightarrow> string \<Rightarrow> (error + string) \<times> World" where
  "createEmergencyAlert env w pid reading kind =
     (if alertsWriteOk env
      then (Inr (newAlertId env),
            w\<lparr>emergencyAlerts := emergencyAlerts w @
                 [(newAlertId env,
                   \<lparr> alert_id = Some (newAlertId env),
                     alert_patientId = pid,
                     alert_type = None,
                     alertType = Some kind,
                     alert_severity = None,
                     status = Active,
                     location = None,
                     vitalData = None,
                     vitalReading = Some reading,
                     medicalProfile = None,
                     alert_message = None,
                     acknowledgedBy = None,
                     acknowledgedAt = None,
                     responderId = None,
                     responseTime = None,
                     resolvedAt = None,
                     createdAt = Some (now env),
                     updatedAt = None \<rparr>)]\<rparr>)
      else (Inl StoreError, w))"

text \<open>
  Updating a document: the first entry with the identifier is patched. \<open>updateDoc\<close> and
  \<open>transaction.update\<close> reject when the write fails or when no such document exists.
\<close>

fun patch_doc :: "string \<Rightarrow> (AlertDoc \<Rightarrow> AlertDoc) \<Rightarrow> (string \<times> AlertDoc) list \<Rightarrow> (string \<times> AlertDoc) list" where
  "patch_doc i f [] = []"
| "patch_doc i f ((j, d) # ds) = (if i = j then (j, f d) # ds else (j, d) # patch_doc i f ds)"

definition updateDoc :: "Env \<Rightarrow> World \<Rightarrow> string \<Rightarrow> (AlertDoc \<Rightarrow> AlertDoc) \<Rightarrow> World option" where
  "updateDoc env w i f =
     (if alertsWriteOk env \<and> map_of (emergencyAlerts w) i \<noteq> None
      then Some (w\<lparr>emergencyAlerts := patch_doc i f (emergencyAlerts w)\<rparr>)
      else None)"

text \<open>
  \<open>acknowledgeAlert\<close> of firestore.ts runs in a transaction: read the document, throw
  when it does not exist, throw when \<open>acknowledgedBy\<close> is truthy (a non-empty string),
  else update. Every error is rethrown to the caller.
\<close>

definition truthy_string :: "string option \<Rightarrow> bool" where
  "truthy_string v = (case v of None \<Rightarrow> False | Some s \<Rightarrow> s \<noteq> [])"

text \<open>\<open>value || fallback\<close> on an optional string.\<close>

definition or_default :: "string option \<Rightarrow> string \<Rightarrow> string" where
  "or_default v d = (case v of None \<Rightarrow> d | Some s \<Rightarrow> if s \<noteq> [] then s else d)"

definition firestore_acknowledgeAlert ::
    "Env \<Rightarrow> World \<Rightarrow> string \<Rightarrow> string \<Rightarrow> (error + unit) \<times> World" where
  "firestore_acknowledgeAlert env w alertId responder =
     (case map_of (emergencyAlerts w) alertId of
        None \<Rightarrow> (Inl AlertDoesNotExist, w)
      | Some alertDoc \<Rightarrow>
          if truthy_string (acknowledgedBy alertDoc) then (Inl AlertAlreadyAcknowledged, w)
          else (case updateDoc env w alertId
                       (\<lambda>d. d\<lparr>status := Acknowledged,
                              acknowledgedBy := Some responder,
                              acknowledgedAt := Some (now env)\<rparr>) of
                  None \<Rightarrow> (Inl StoreError, w)
                | Some w' \<Rightarrow> (Inr (), w')))"

section \<open>The ingestion pipeline (integrations/firebase/vitals.ts)\<close>

text \<open>
  \<open>addVitalReading\<close> of vitals.ts: stamp the reading, classify it with the default
  thresholds, store it, and when it is an emergency create an alert through
  \<open>createEmergencyAlert\<close>. It checks nothing about its argument; whatever a store call
  throws is logged and rethrown.
\<close>

definition addVitalReading :: "Env \<Rightarrow> World \<Rightarrow> VitalReading \<Rightarrow> (error + string) \<times> World" where
  "addVitalReading env w reading =
     (let vitalReading_new =
            reading\<lparr>timestamp := Some (now env),
                    isEmergency := Some (checkVitalThresholds reading DEFAULT_THRESHOLDS)\<rparr>
      in case addVitalToFirestore env w vitalReading_new of
           (Inl e, w1) \<Rightarrow> (Inl e, w1)
         | (Inr docId, w1) \<Rightarrow>
             if isEmergency vitalReading_new = Some True
             then (case createEmergencyAlert env w1 (patientId reading) vitalReading_new
                          ''vital_threshold_exceeded'' of
                     (Inl e, w2) \<Rightarrow> (Inl e, w2)
                   | (Inr _, w2) \<Rightarrow> (Inr docId, w2))
             else (Inr docId, w1))"

section \<open>The notification manager (notifications/push)\<close>

text \<open>
  \<open>showNotification\<close> throws when permission is not granted (which
  \<open>getPermissionStatus\<close> also reports when notifications are unsupported) and rethrows
  what the browser throws while displaying; \<open>None\<close> stands for the exception.
  Of a notification the model keeps the title (without its pictograph), the body, the
  addressee and the patient.
\<close>

definition getPermissionStatus_granted :: "Env \<Rightarrow> bool" where
  "getPermissionStatus_granted env = (if \<not> notifSupported env then False else notifGranted env)"

definition showNotification :: "Env \<Rightarrow> World \<Rightarrow> NotificationData \<Rightarrow> World option" where
  "showNotification env w n =
     (if \<not> getPermissionStatus_granted env then None
      else if \<not> notifShowOk env then None
      else Some (w\<lparr>shown := shown w @ [n]\<rparr>))"

definition showEmergencyAlert :: "Env \<Rightarrow> World \<Rightarrow> string \<Rightarrow> World option" where
  "showEmergencyAlert env w pid =
     showNotification env w
       \<lparr> title = ''EMERGENCY ALERT'',
         body = ''Critical vitals detected for patient '' @ pid
                @ ''. Immediate attention required.'',
         userId = ''responder'', notif_patientId = Some pid \<rparr>"

definition showVitalsAlert :: "Env \<Rightarrow> World \<Rightarrow> string \<Rightarrow> string \<Rightarrow> World option" where
  "showVitalsAlert env w pid msg =
     showNotification env w
       \<lparr> title = ''Vitals Alert'', body = msg, userId = ''family'',
         notif_patientId = Some pid \<rparr>"

section \<open>The SOS manager (integrations/emergency/sos.ts)\<close>

record SOSManager =
  isSOSActive :: bool
  currentAlertId :: "string option"

text \<open>
  \<open>alertId\<close> of a response is a string in the interface; the already-active branch
  returns \<open>this.currentAlertId!\<close>, which is \<open>null\<close> when no identifier is stored, so the
  field is an option here.
\<close>

record SOSResponse =
  alertId :: "string option"
  success :: bool
  message :: string
  estimatedResponseTime :: "string option"

text \<open>
  The three private notifiers wrap their body in \<open>try/catch\<close> and never throw: when
  notifications are unsupported they skip, and an exception of the notification
  manager is logged and dropped.
\<close>

definition notifyResponders :: "Env \<Rightarrow> World \<Rightarrow> string \<Rightarrow> AlertDoc \<Rightarrow> World" where
  "notifyResponders env w aid alert =
     (let w1 = w\<lparr>legs := legs w @ [RespondersLeg]\<rparr>
      in if notifSupported env
         then (case showEmergencyAlert env w1 (alert_patientId alert) of
                 None \<Rightarrow> w1
               | Some w2 \<Rightarrow> w2)
         else w1)"

definition notifyFamilyMembers :: "Env \<Rightarrow> World \<Rightarrow> string \<Rightarrow> AlertDoc \<Rightarrow> World" where
  "notifyFamilyMembers env w pid alert =
     (let w1 = w\<lparr>legs := legs w @ [FamilyLeg]\<rparr>;
          msg = (if alert_type alert = Some vitals_critical
                 then ''Critical vitals detected for your family member''
                 else ''Emergency alert from your family member'')
      in if notifSupported env
         then (case showVitalsAlert env w1 pid msg of
                 None \<Rightarrow> w1
               | Some w2 \<Rightarrow> w2)
         else w1)"

definition notifyEmergencyContacts :: "Env \<Rightarrow> World \<Rightarrow> string \<Rightarrow> AlertDoc \<Rightarrow> World" where
  "notifyEmergencyContacts env w pid alert =
     (let w1 = w\<lparr>legs := legs w @ [EmergencyContactsLeg]\<rparr>
      in if notifSupported env
         then (case showNotification env w1
                      \<lparr> title = ''Emergency Alert'',
                        body = ''Emergency SOS activated for patient '' @ pid,
                        userId = ''emergency_contact'', notif_patientId = None \<rparr> of
                 None \<Rightarrow> w1
               | Some w2 \<Rightarrow> w2)
         else w1)"

text \<open>
  \<open>generateVitalsMessage\<close> lists the metrics outside the warning band; the numbers it
  prints into the text are left out of the model.
\<close>

fun join_comma :: "string list \<Rightarrow> string" where
  "join_comma [] = []"
| "join_comma [x] = x"
| "join_comma (x # y # ys) = x @ '', '' @ join_comma (y # ys)"

definition generateVitalsMessage :: "VitalReading \<Rightarrow> string" where
  "generateVitalsMessage v =
     (let issues =
            (case heartRate v of
               Some hr \<Rightarrow> if hr \<noteq> 0 \<and> (hr < 50 \<or> hr > 120) then [''Heart rate''] else []
             | None \<Rightarrow> [])
            @ (case oxygenSaturation v of
                 Some ox \<Rightarrow> if ox \<noteq> 0 \<and> ox < 90 then [''Oxygen saturation''] else []
               | None \<Rightarrow> [])
            @ (case temperature v of
                 Some t \<Rightarrow> if t \<noteq> 0 \<and> (t < 965 / 10 \<or> t > 101) then [''Temperature''] else []
               | None \<Rightarrow> [])
      in if length issues > 0
         then ''Critical vitals detected: '' @ join_comma issues
         else ''Abnormal vital signs detected'')"

text \<open>
  Enrichment: a rejected location promise and a throwing profile lookup are caught and
  leave the variable \<open>undefined\<close>; a profile lookup that finds nothing yields \<open>null\<close>.
\<close>

definition gather_profile :: "Env \<Rightarrow> MedicalProfile option" where
  "gather_profile env =
     (case profileResult env of
        ProfileThrows \<Rightarrow> None
      | ProfileNull \<Rightarrow> None
      | ProfileFound p \<Rightarrow> Some p)"

text \<open>
  \<open>addDoc\<close> on the \<open>emergencyAlerts\<close> collection. \<open>alertsWriteOk\<close> is the outcome of
  the call as the manager sees it. What the SDK itself decides from the data it is given,
  before the store is asked, is the subject of the section on validation below, which
  computes this outcome for the two documents the manager builds.
\<close>

definition addDoc :: "Env \<Rightarrow> World \<Rightarrow> AlertDoc \<Rightarrow> (string \<times> World) option" where
  "addDoc env w alert =
     (if alertsWriteOk env
      then Some (newAlertId env,
                 w\<lparr>emergencyAlerts := emergencyAlerts w @
                      [(newAlertId env,
                        alert\<lparr>createdAt := Some (now env), updatedAt := Some (now env)\<rparr>)]\<rparr>)
      else None)"

text \<open>
  \<open>triggerVitalsAlert\<close>: enrich, compute the severity, write the alert (a failed write
  is rethrown), notify the responders when the severity is critical, and always notify
  the family.
\<close>

definition triggerVitalsAlert ::
    "Env \<Rightarrow> World \<Rightarrow> string \<Rightarrow> VitalReading \<Rightarrow> (error + string) \<times> World" where
  "triggerVitalsAlert env w pid vitalData_in =
     (let location_v = locationResult env;
          medicalProfile_v = gather_profile env;
          severity_v = calculateVitalsSeverity vitalData_in;
          alert =
            \<lparr> alert_id = None,
              alert_patientId = pid,
              alert_type = Some vitals_critical,
              alertType = None,
              alert_severity = Some severity_v,
              status = Active,
              location = location_v,
              vitalData = Some vitalData_in,
              vitalReading = None,
              medicalProfile = medicalProfile_v,
              alert_message = Some (generateVitalsMessage vitalData_in),
              acknowledgedBy = None,
              acknowledgedAt = None,
              responderId = None,
              responseTime = None,
              resolvedAt = None,
              createdAt = None,
              updatedAt = None \<rparr>
      in case addDoc env w alert of
           None \<Rightarrow> (Inl StoreError, w)
         | Some (docRef_id, w1) \<Rightarrow>
             (let w2 = (if severity_v = Critical
                        then notifyResponders env w1 docRef_id alert else w1);
                  w3 = notifyFamilyMembers env w2 pid alert
              in (Inr docRef_id, w3)))"

text \<open>
  \<open>triggerSOS\<close>: refuse while a session is active; otherwise set the flag, enrich,
  write the alert, store its identifier, notify the responders, notify the emergency
  contacts when the gathered profile has an \<open>emergencyContacts\<close> field. A failed write
  lands in the outer \<open>catch\<close>, which resets the session and returns a failure
  response with an empty identifier (the error text appended to its message is left
  out). The location is copied field by field before it is stored, which leaves it as
  it was. The callbacks set through \<open>setSOSCallback\<close> are hooks of the user
  interface; the one callback the application installs sets a display flag and cannot
  throw, so calling it is not part of the model.
\<close>

definition triggerSOS ::
    "Env \<Rightarrow> SOSManager \<Rightarrow> World \<Rightarrow> string \<Rightarrow> string option \<Rightarrow> SOSResponse \<times> SOSManager \<times> World" where
  "triggerSOS env m w pid msg =
     (if isSOSActive m
      then (\<lparr> alertId = currentAlertId m, success = False,
               message = ''SOS already active'', estimatedResponseTime = None \<rparr>, m, w)
      else
        (let m1 = m\<lparr>isSOSActive := True\<rparr>;
             location_v = locationResult env;
             medicalProfile_v = gather_profile env;
             alert =
               \<lparr> alert_id = None,
                 alert_patientId = pid,
                 alert_type = Some manual_sos,
                 alertType = None,
                 alert_severity = Some Critical,
                 status = Active,
                 location = location_v,
                 vitalData = None,
                 vitalReading = None,
                 medicalProfile = medicalProfile_v,
                 alert_message =
                   Some (or_default msg ''Emergency SOS activated''),
                 acknowledgedBy = None,
                 acknowledgedAt = None,
                 responderId = None,
                 responseTime = None,
                 resolvedAt = None,
                 createdAt = None,
                 updatedAt = None \<rparr>
         in case addDoc env w alert of
              None \<Rightarrow>
                (\<lparr> alertId = Some [], success = False,
                    message = ''Failed to send emergency alert: '',
                    estimatedResponseTime = None \<rparr>,
                 m1\<lparr>isSOSActive := False, currentAlertId := None\<rparr>, w)
            | Some (docRef_id, w1) \<Rightarrow>
                (let m2 = m1\<lparr>currentAlertId := Some docRef_id\<rparr>;
                     w2 = notifyResponders env w1 docRef_id alert;
                     w3 = (case medicalProfile_v of
                             None \<Rightarrow> w2
                           | Some p \<Rightarrow>
                               if emergencyContacts p \<noteq> None
                               then notifyEmergencyContacts env w2 pid alert
                               else w2)
                 in (\<lparr> alertId = Some docRef_id, success = True,
                        message = ''Emergency alert sent successfully'',
                        estimatedResponseTime = Some ''5-10 minutes'' \<rparr>, m2, w3))))"

text \<open>
  \<open>cancelSOS\<close>: nothing to do unless a session is active with a truthy alert
  identifier; otherwise resolve the alert, clear the session and tell the responders.
  An exception of the update or of the notification makes the result \<open>false\<close>.
\<close>

definition cancelSOS ::
    "Env \<Rightarrow> SOSManager \<Rightarrow> World \<Rightarrow> string option \<Rightarrow> bool \<times> SOSManager \<times> World" where
  "cancelSOS env m w reason =
     (if \<not> isSOSActive m \<or> \<not> truthy_string (currentAlertId m)
      then (False, m, w)
      else
        (case currentAlertId m of
           None \<Rightarrow> (False, m, w)
         | Some aid \<Rightarrow>
             (case updateDoc env w aid
                     (\<lambda>d. d\<lparr>status := Resolved,
                            resolvedAt := Some (now env),
                            alert_message := Some (or_default reason ''SOS cancelled by patient''),
                            updatedAt := Some (now env)\<rparr>) of
                None \<Rightarrow> (False, m, w)
              | Some w1 \<Rightarrow>
                  (let m1 = m\<lparr>isSOSActive := False, currentAlertId := None\<rparr>
                   in case showNotification env w1
                             \<lparr> title = ''SOS Cancelled'',
                               body = or_default reason
                                        ''Emergency alert has been cancelled by the patient'',
                               userId = ''responder'', notif_patientId = None \<rparr> of
                        None \<Rightarrow> (False, m1, w1)
                      | Some w2 \<Rightarrow> (True, m1, w2)))))"

text \<open>
  The lifecycle methods of the manager each issue one \<open>updateDoc\<close> and return whether
  it went through; none of them reads the document first.
\<close>

definition acknowledgeAlert :: "Env \<Rightarrow> World \<Rightarrow> string \<Rightarrow> string \<Rightarrow> bool \<times> World" where
  "acknowledgeAlert env w aid responder =
     (case updateDoc env w aid
             (\<lambda>d. d\<lparr>status := Acknowledged,
                    acknowledgedBy := Some responder,
                    acknowledgedAt := Some (now env),
                    updatedAt := Some (now env)\<rparr>) of
        None \<Rightarrow> (False, w)
      | Some w' \<Rightarrow> (True, w'))"



section \<open>Validation of written data by the Firestore SDK\<close>

text \<open>
  The application opens the database with \<open>getFirestore(app)\<close> (firebase/config), that
  is with the SDK's default settings. Under them a write is refused with an exception,
  before anything reaches the store, when the data holds a property whose value is
  \<open>undefined\<close>, at any depth; \<open>null\<close> is a value like any other. The source cleans
  such values away in two places for this reason (\<open>createUserProfile\<close>, and the copy of
  the location in \<open>triggerSOS\<close>).

  The alert literal of the manager always has the properties \<open>location\<close> and
  \<open>medicalProfile\<close>. \<open>location\<close> is \<open>undefined\<close> when the location promise was
  rejected; \<open>medicalProfile\<close> is \<open>undefined\<close> when the lookup threw. The location
  manager builds its result with \<open>altitude: coords.altitude || undefined\<close> and the same
  for \<open>heading\<close> and \<open>speed\<close>: \<open>triggerVitalsAlert\<close> stores that object as it is,
  \<open>triggerSOS\<close> stores a copy without the properties that are \<open>undefined\<close>. The other
  properties of the two literals are taken as defined.
\<close>

definition location_undefined :: "LocationData \<Rightarrow> string list" where
  "location_undefined l =
     (if altitude l = None then [''location.altitude''] else [])
     @ (if heading l = None then [''location.heading''] else [])
     @ (if speed l = None then [''location.speed''] else [])"

definition vitals_alert_undefined :: "Env \<Rightarrow> string list" where
  "vitals_alert_undefined env =
     (case locationResult env of
        None \<Rightarrow> [''location'']
      | Some l \<Rightarrow> location_undefined l)
     @ (case profileResult env of
          ProfileThrows \<Rightarrow> [''medicalProfile'']
        | ProfileNull \<Rightarrow> []
        | ProfileFound p \<Rightarrow> [])"

definition sos_alert_undefined :: "Env \<Rightarrow> string list" where
  "sos_alert_undefined env =
     (case locationResult env of
        None \<Rightarrow> [''location'']
      | Some l \<Rightarrow> [])
     @ (case profileResult env of
          ProfileThrows \<Rightarrow> [''medicalProfile'']
        | ProfileNull \<Rightarrow> []
        | ProfileFound p \<Rightarrow> [])"

text \<open>
  The outcome of \<open>addDoc\<close> under the default settings: the store's answer, unless the
  data holds an \<open>undefined\<close> property, in which case the call throws. The two
  dispatchers as the application runs them are the manager's methods with this outcome.
\<close>

definition sdk_validated :: "Env \<Rightarrow> string list \<Rightarrow> Env" where
  "sdk_validated env undefined_properties =
     env\<lparr>alertsWriteOk := alertsWriteOk env \<and> undefined_properties = []\<rparr>"

definition sdk_triggerVitalsAlert ::
    "Env \<Rightarrow> World \<Rightarrow> string \<Rightarrow> VitalReading \<Rightarrow> (error + string) \<times> World" where
  "sdk_triggerVitalsAlert env w pid vitalData_in =
     triggerVitalsAlert (sdk_validated env (vitals_alert_undefined env)) w pid vitalData_in"

definition sdk_triggerSOS ::
    "Env \<Rightarrow> SOSManager \<Rightarrow> World \<Rightarrow> string \<Rightarrow> string option \<Rightarrow> SOSResponse \<times> SOSManager \<times> World" where
  "sdk_triggerSOS env m w pid msg =
     triggerSOS (sdk_validated env (sos_alert_undefined env)) m w pid msg"

section \<open>Concrete scenarios\<close>

text \<open>
  An environment in which every collaborator answers (the location complete, with
  altitude, heading and speed), the same environment with the location promise
  rejected, the same with a throwing profile lookup, one in which the store refuses
  every write, an empty world, an idle manager, and a world holding one alert of the
  SOS manager's shape.
\<close>

definition here :: LocationData where
  "here = \<lparr> latitude = 48, longitude = 2, accuracy = 10, altitude = Some 35,
             heading = Some 90, speed = Some 1, loc_timestamp = 7 \<rparr>"

definition profile_P1 :: MedicalProfile where
  "profile_P1 = \<lparr> profile_patientId = ''P1'', bloodType = None, allergies = [],
                   emergencyContacts = Some [] \<rparr>"

definition env_ok :: Env where
  "env_ok = \<lparr> now = 1000, newVitalId = ''v1'', newAlertId = ''a1'', vitalsWriteOk = True,
               alertsWriteOk = True, locationResult = Some here,
               profileResult = ProfileFound profile_P1, notifSupported = True,
               notifGranted = True, notifShowOk = True \<rparr>"

definition env_no_location :: Env where
  "env_no_location = env_ok\<lparr>locationResult := None\<rparr>"

definition env_no_profile :: Env where
  "env_no_profile = env_ok\<lparr>profileResult := ProfileThrows\<rparr>"

definition env_down :: Env where
  "env_down = env_ok\<lparr>vitalsWriteOk := False, alertsWriteOk := False\<rparr>"

definition world0 :: World where
  "world0 = \<lparr> vitals = [], emergencyAlerts = [], legs = [], shown = [] \<rparr>"

definition idle :: SOSManager where
  "idle = \<lparr> isSOSActive = False, currentAlertId = None \<rparr>"

definition sos_doc :: "alert_status \<Rightarrow> string option \<Rightarrow> AlertDoc" where
  "sos_doc st ack =
     \<lparr> alert_id = None, alert_patientId = ''P1'', alert_type = Some manual_sos,
       alertType = None, alert_severity = Some Critical, status = st, location = None,
       vitalData = None, vitalReading = None, medicalProfile = None,
       alert_message = Some ''Emergency SOS activated'', acknowledgedBy = ack,
       acknowledgedAt = None, responderId = None, responseTime = None, resolvedAt = None,
       createdAt = Some 900, updatedAt = Some 900 \<rparr>"

definition world_with :: "AlertDoc \<Rightarrow> World" where
  "world_with d = world0\<lparr>emergencyAlerts := [(''a0'', d)]\<rparr>"

section \<open>The threshold evaluator\<close>

lemma checkVitalThresholds_eq_spec:
  "checkVitalThresholds reading thresholds = classify_spec reading thresholds"
  unfolding checkVitalThresholds_def classify_spec_def inside_def Let_def
  by (cases "heartRate reading"; cases "oxygenSaturation reading"; cases "temperature reading";
      cases "bloodPressure reading") (auto simp: not_le not_less)

text \<open>
  Claim C2. \<open>checkVitalThresholds\<close> is a function of the reading and the thresholds
  alone, and it answers true exactly when some present metric is outside its range,
  bounds included in the range: it agrees with \<open>classify_spec\<close> on every reading and
  every threshold table. A reading with no metric is never an emergency. Under the
  default thresholds a heart rate of 100 is normal and 101 is an emergency, an oxygen
  saturation of 90 is normal and 89 is an emergency.
\<close>

theorem checkVitalThresholds_classifies:
  "checkVitalThresholds reading thresholds = classify_spec reading thresholds
   \<and> \<not> checkVitalThresholds (bare_reading pid) thresholds
   \<and> \<not> checkVitalThresholds ((bare_reading pid)\<lparr>heartRate := Some 100\<rparr>) DEFAULT_THRESHOLDS
   \<and> checkVitalThresholds ((bare_reading pid)\<lparr>heartRate := Some 101\<rparr>) DEFAULT_THRESHOLDS
   \<and> \<not> checkVitalThresholds ((bare_reading pid)\<lparr>oxygenSaturation := Some 90\<rparr>)
         DEFAULT_THRESHOLDS
   \<and> checkVitalThresholds ((bare_reading pid)\<lparr>oxygenSaturation := Some 89\<rparr>)
         DEFAULT_THRESHOLDS"
proof -
  have "checkVitalThresholds reading thresholds = classify_spec reading thresholds"
    by (rule checkVitalThresholds_eq_spec)
  moreover have "\<not> checkVitalThresholds (bare_reading pid) thresholds"
    by (simp add: checkVitalThresholds_def bare_reading_def)
  moreover have
    "\<not> checkVitalThresholds ((bare_reading pid)\<lparr>heartRate := Some 100\<rparr>) DEFAULT_THRESHOLDS"
    by (simp add: checkVitalThresholds_def bare_reading_def DEFAULT_THRESHOLDS_def)
  moreover have
    "checkVitalThresholds ((bare_reading pid)\<lparr>heartRate := Some 101\<rparr>) DEFAULT_THRESHOLDS"
    by (simp add: checkVitalThresholds_def bare_reading_def DEFAULT_THRESHOLDS_def)
  moreover have
    "\<not> checkVitalThresholds ((bare_reading pid)\<lparr>oxygenSaturation := Some 90\<rparr>)
         DEFAULT_THRESHOLDS"
    by (simp add: checkVitalThresholds_def bare_reading_def DEFAULT_THRESHOLDS_def)
  moreover have
    "checkVitalThresholds ((bare_reading pid)\<lparr>oxygenSaturation := Some 89\<rparr>)
       DEFAULT_THRESHOLDS"
    by (simp add: checkVitalThresholds_def bare_reading_def DEFAULT_THRESHOLDS_def)
  ultimately show ?thesis by blast
qed

theorem checkVitalThresholds_classifies_witness:
  "checkVitalThresholds
     ((bare_reading ''P1'')\<lparr>heartRate := Some 72, temperature := Some 103,
        bloodPressure := Some \<lparr>systolic = 120, diastolic = 80\<rparr>\<rparr>) DEFAULT_THRESHOLDS
   \<and> classify_spec
     ((bare_reading ''P1'')\<lparr>heartRate := Some 72, temperature := Some 103,
        bloodPressure := Some \<lparr>systolic = 120, diastolic = 80\<rparr>\<rparr>) DEFAULT_THRESHOLDS"
  using checkVitalThresholds_classifies
    [of "(bare_reading ''P1'')\<lparr>heartRate := Some 72, temperature := Some 103,
        bloodPressure := Some \<lparr>systolic = 120, diastolic = 80\<rparr>\<rparr>" DEFAULT_THRESHOLDS "''P1''"]
  by (simp add: classify_spec_def inside_def bare_reading_def DEFAULT_THRESHOLDS_def)

section \<open>The severity classifier\<close>

text \<open>
  On a record none of whose metrics is zero the code follows the policy: the count of
  metrics in the critical band decides between critical and high, and otherwise the
  count of metrics in the warning band decides between medium and low.
\<close>

lemma calculateVitalsSeverity_nonzero:
  assumes "heartRate v \<noteq> Some 0" "oxygenSaturation v \<noteq> Some 0" "temperature v \<noteq> Some 0"
  shows "calculateVitalsSeverity v =
           (if critical_band_count v \<ge> 2 then Critical
            else if critical_band_count v \<ge> 1 then High
            else if warning_band_count v \<ge> 2 then Medium
            else Low)"
  using assms
  unfolding calculateVitalsSeverity_def critical_band_count_def warning_band_count_def Let_def
  by (cases "heartRate v"; cases "oxygenSaturation v"; cases "temperature v") simp_all

text \<open>
  Claim C4. The policy asks for critical as soon as two metrics are in the critical
  band. The record with heart rate 0 and oxygen saturation 80 has two such metrics
  (0 is below 40, 80 is below 85), yet the code skips the heart rate, whose value is
  falsy, counts one, and answers high. The example of the claim, heart rate 160 with
  oxygen saturation 80, is classified critical.
\<close>

theorem severity_zero_metric_undercounted:
  "critical_band_count
     ((bare_reading ''P1'')\<lparr>heartRate := Some 0, oxygenSaturation := Some 80\<rparr>) = 2
   \<and> calculateVitalsSeverity
        ((bare_reading ''P1'')\<lparr>heartRate := Some 0, oxygenSaturation := Some 80\<rparr>) = High
   \<and> calculateVitalsSeverity
        ((bare_reading ''P1'')\<lparr>heartRate := Some 160, oxygenSaturation := Some 80\<rparr>) = Critical"
  by (simp add: critical_band_count_def calculateVitalsSeverity_def bare_reading_def)

section \<open>The ingestion pipeline\<close>

lemma map_of_patch_doc:
  "map_of (patch_doc i f ds) k = (if k = i then map_option f (map_of ds i) else map_of ds k)"
  by (induction ds) auto

text \<open>When both store writes go through, this is all that \<open>addVitalReading\<close> does.\<close>

lemma addVitalReading_ok:
  assumes "vitalsWriteOk env" "alertsWriteOk env"
  shows "addVitalReading env w reading =
    (Inr (newVitalId env),
     w\<lparr>vitals := vitals w @
          [(newVitalId env,
            reading\<lparr>timestamp := Some (now env),
                    isEmergency := Some (checkVitalThresholds reading DEFAULT_THRESHOLDS),
                    reading_id := Some (newVitalId env)\<rparr>)],
        emergencyAlerts := emergencyAlerts w @
          (if checkVitalThresholds reading DEFAULT_THRESHOLDS
           then [(newAlertId env,
                  \<lparr> alert_id = Some (newAlertId env),
                     alert_patientId = patientId reading,
                     alert_type = None,
                     alertType = Some ''vital_threshold_exceeded'',
                     alert_severity = None,
                     status = Active,
                     location = None,
                     vitalData = None,
                     vitalReading =
                       Some (reading\<lparr>timestamp := Some (now env),
                          isEmergency := Some (checkVitalThresholds reading DEFAULT_THRESHOLDS)\<rparr>),
                     medicalProfile = None,
                     alert_message = None,
                     acknowledgedBy = None,
                     acknowledgedAt = None,
                     responderId = None,
                     responseTime = None,
                     resolvedAt = None,
                     createdAt = Some (now env),
                     updatedAt = None \<rparr>)]
           else [])\<rparr>)"
  using assms
  by (simp add: addVitalReading_def addVitalToFirestore_def createEmergencyAlert_def Let_def)

text \<open>
  Claim C1, as amended. When the two store writes go through, \<open>addVitalReading\<close>
  returns the identifier of the new reading and appends exactly one reading, stamped
  and carrying \<open>isEmergency\<close> as \<open>checkVitalThresholds\<close> computes it under the
  default thresholds. When the reading is an emergency it appends exactly one alert
  document, whose status is active and whose \<open>alertType\<close> is
  \<open>vital_threshold_exceeded\<close>; the document has no \<open>type\<close> field. Otherwise it
  appends no alert.
\<close>

theorem addVitalReading_persists_and_alerts:
  assumes "vitalsWriteOk env" "alertsWriteOk env"
  shows "fst (addVitalReading env w reading) = Inr (newVitalId env)
    \<and> vitals (snd (addVitalReading env w reading)) =
        vitals w @
          [(newVitalId env,
            reading\<lparr>timestamp := Some (now env),
                    isEmergency := Some (checkVitalThresholds reading DEFAULT_THRESHOLDS),
                    reading_id := Some (newVitalId env)\<rparr>)]
    \<and> map fst (emergencyAlerts (snd (addVitalReading env w reading))) =
        map fst (emergencyAlerts w) @
          (if checkVitalThresholds reading DEFAULT_THRESHOLDS then [newAlertId env] else [])
    \<and> (checkVitalThresholds reading DEFAULT_THRESHOLDS \<longrightarrow>
         (\<exists>d. emergencyAlerts (snd (addVitalReading env w reading)) =
                emergencyAlerts w @ [(newAlertId env, d)]
              \<and> status d = Active
              \<and> alertType d = Some ''vital_threshold_exceeded''
              \<and> alert_type d = None
              \<and> alert_patientId d = patientId reading))"
  by (simp add: addVitalReading_ok [OF assms])

theorem addVitalReading_persists_and_alerts_witness:
  "vitalsWriteOk env_ok \<and> alertsWriteOk env_ok
   \<and> checkVitalThresholds ((bare_reading ''P1'')\<lparr>heartRate := Some 180\<rparr>) DEFAULT_THRESHOLDS
   \<and> fst (addVitalReading env_ok world0 ((bare_reading ''P1'')\<lparr>heartRate := Some 180\<rparr>))
       = Inr ''v1''
   \<and> map fst (vitals (snd (addVitalReading env_ok world0
         ((bare_reading ''P1'')\<lparr>heartRate := Some 180\<rparr>)))) = [''v1'']
   \<and> map fst (emergencyAlerts (snd (addVitalReading env_ok world0
         ((bare_reading ''P1'')\<lparr>heartRate := Some 180\<rparr>)))) = [''a1'']"
proof -
  have ok: "vitalsWriteOk env_ok" "alertsWriteOk env_ok"
    by (simp_all add: env_ok_def)
  have em: "checkVitalThresholds ((bare_reading ''P1'')\<lparr>heartRate := Some 180\<rparr>) DEFAULT_THRESHOLDS"
    by (simp add: checkVitalThresholds_def bare_reading_def DEFAULT_THRESHOLDS_def)
  show ?thesis
    using addVitalReading_persists_and_alerts
      [OF ok, of world0 "(bare_reading ''P1'')\<lparr>heartRate := Some 180\<rparr>"] ok em
    by (simp add: env_ok_def world0_def)
qed

text \<open>
  Claim C1 as stated fails: ingesting \<open>{patientId: "P1", heartRate: 180}\<close> creates one
  alert, and that alert has no \<open>type\<close> (so not \<open>vitals_critical\<close>); what it carries is
  \<open>alertType = vital_threshold_exceeded\<close>.
\<close>

theorem ingest_alert_type_counterexample:
  "map (alert_type \<circ> snd) (emergencyAlerts (snd (addVitalReading env_ok world0
       ((bare_reading ''P1'')\<lparr>heartRate := Some 180\<rparr>)))) = [None]
   \<and> map (alertType \<circ> snd) (emergencyAlerts (snd (addVitalReading env_ok world0
       ((bare_reading ''P1'')\<lparr>heartRate := Some 180\<rparr>)))) = [Some ''vital_threshold_exceeded'']"
proof -
  have ok: "vitalsWriteOk env_ok" "alertsWriteOk env_ok"
    by (simp_all add: env_ok_def)
  have em: "checkVitalThresholds ((bare_reading ''P1'')\<lparr>heartRate := Some 180\<rparr>) DEFAULT_THRESHOLDS"
    by (simp add: checkVitalThresholds_def bare_reading_def DEFAULT_THRESHOLDS_def)
  show ?thesis
    by (simp add: addVitalReading_ok [OF ok] em world0_def)
qed

text \<open>The result of \<open>addVitalReading\<close> depends on the two store writes only.\<close>

lemma addVitalReading_result:
  "fst (addVitalReading env w reading) =
     (if \<not> vitalsWriteOk env then Inl StoreError
      else if checkVitalThresholds reading DEFAULT_THRESHOLDS \<and> \<not> alertsWriteOk env
      then Inl StoreError
      else Inr (newVitalId env))"
  by (simp add: addVitalReading_def addVitalToFirestore_def createEmergencyAlert_def Let_def)

lemma addVitalReading_no_write:
  "\<not> vitalsWriteOk env \<Longrightarrow> snd (addVitalReading env w reading) = w"
  by (simp add: addVitalReading_def addVitalToFirestore_def Let_def)

text \<open>
  Claim C3, as amended. \<open>addVitalReading\<close> does not validate the patient reference:
  its parameter type requires a \<open>patientId\<close> string and any string is accepted. It
  fails exactly when a store write fails (the write of the reading, or the write of the
  alert for an emergency reading), always with the store's error; when the write of
  the reading fails nothing is persisted, and when it succeeds the reading is persisted
  under the patient reference it came with.
\<close>

theorem addVitalReading_fails_only_on_store:
  "isl (fst (addVitalReading env w reading)) =
     (\<not> vitalsWriteOk env
      \<or> (checkVitalThresholds reading DEFAULT_THRESHOLDS \<and> \<not> alertsWriteOk env))
   \<and> (isl (fst (addVitalReading env w reading)) \<longrightarrow>
        fst (addVitalReading env w reading) = Inl StoreError)
   \<and> (\<not> vitalsWriteOk env \<longrightarrow> snd (addVitalReading env w reading) = w)
   \<and> (vitalsWriteOk env \<longrightarrow>
        map (patientId \<circ> snd) (vitals (snd (addVitalReading env w reading))) =
        map (patientId \<circ> snd) (vitals w) @ [patientId reading])"
  by (simp add: addVitalReading_result addVitalReading_no_write)
     (simp add: addVitalReading_def addVitalToFirestore_def createEmergencyAlert_def Let_def)

theorem addVitalReading_fails_only_on_store_witness:
  "isl (fst (addVitalReading env_down world0 (bare_reading ''P1'')))
   \<and> fst (addVitalReading env_down world0 (bare_reading ''P1'')) = Inl StoreError
   \<and> \<not> vitalsWriteOk env_down
   \<and> snd (addVitalReading env_down world0 (bare_reading ''P1'')) = world0"
  using addVitalReading_fails_only_on_store [of env_down world0 "bare_reading ''P1''"]
  by (simp add: env_down_def env_ok_def)

text \<open>
  Claim C3 as stated fails: a reading whose patient reference is the empty string is
  accepted, persisted, and its identifier returned.
\<close>

theorem ingest_without_patient_counterexample:
  "patientId (bare_reading []) = []
   \<and> fst (addVitalReading env_ok world0 (bare_reading [])) = Inr ''v1''
   \<and> map (patientId \<circ> snd) (vitals (snd (addVitalReading env_ok world0 (bare_reading [])))) = [[]]"
proof -
  have ok: "vitalsWriteOk env_ok" "alertsWriteOk env_ok"
    by (simp_all add: env_ok_def)
  show ?thesis
    by (simp add: addVitalReading_ok [OF ok] world0_def) (simp add: bare_reading_def env_ok_def)
qed


section \<open>The alert lifecycle\<close>


text \<open>
  The transactional \<open>acknowledgeAlert\<close> of firestore.ts is first-acknowledger-wins:
  an alert whose \<open>acknowledgedBy\<close> holds a non-empty identifier is left as it is and
  the call fails, so of two calls in a row on an unacknowledged alert the first succeeds
  and the second fails.
\<close>

lemma firestore_acknowledgeAlert_first_wins:
  assumes "map_of (emergencyAlerts w) aid = Some d" "truthy_string (acknowledgedBy d)"
  shows "firestore_acknowledgeAlert env w aid responder = (Inl AlertAlreadyAcknowledged, w)"
  using assms by (simp add: firestore_acknowledgeAlert_def)

lemma firestore_acknowledgeAlert_then_rejects:
  assumes "map_of (emergencyAlerts w) aid = Some d" "\<not> truthy_string (acknowledgedBy d)"
    "alertsWriteOk env" "r1 \<noteq> []"
  shows "fst (firestore_acknowledgeAlert env w aid r1) = Inr ()
    \<and> firestore_acknowledgeAlert env' (snd (firestore_acknowledgeAlert env w aid r1)) aid r2 =
        (Inl AlertAlreadyAcknowledged, snd (firestore_acknowledgeAlert env w aid r1))"
  using assms
  by (simp add: firestore_acknowledgeAlert_def updateDoc_def map_of_patch_doc truthy_string_def)

text \<open>
  Claim C5. The claim holds of the transactional \<open>acknowledgeAlert\<close> of firestore.ts
  (the two lemmas above) and fails on \<open>acknowledgeAlert\<close> of the SOS manager, which
  updates without reading: on an active alert the manager's method succeeds for
  responder \<open>r1\<close>, then succeeds again for responder \<open>r2\<close> and overwrites
  \<open>acknowledgedBy\<close>, where the transactional function rejects the second call.
\<close>

theorem manager_acknowledge_overwrites:
  "fst (acknowledgeAlert env_ok (world_with (sos_doc Active None)) ''a0'' ''r1'')
   \<and> fst (acknowledgeAlert env_ok
          (snd (acknowledgeAlert env_ok (world_with (sos_doc Active None)) ''a0'' ''r1''))
          ''a0'' ''r2'')
   \<and> map (acknowledgedBy \<circ> snd) (emergencyAlerts (snd (acknowledgeAlert env_ok
          (snd (acknowledgeAlert env_ok (world_with (sos_doc Active None)) ''a0'' ''r1''))
          ''a0'' ''r2''))) = [Some ''r2'']
   \<and> fst (firestore_acknowledgeAlert env_ok
          (snd (acknowledgeAlert env_ok (world_with (sos_doc Active None)) ''a0'' ''r1''))
          ''a0'' ''r2'') = Inl AlertAlreadyAcknowledged"
  by (simp add: acknowledgeAlert_def firestore_acknowledgeAlert_def updateDoc_def
      world_with_def world0_def sos_doc_def env_ok_def truthy_string_def)





section \<open>Dispatch and the SOS session\<close>

text \<open>The notifiers touch the log of legs and the shown notifications, never the store.\<close>

lemma notifyResponders_effect:
  "emergencyAlerts (notifyResponders env w aid a) = emergencyAlerts w"
  "vitals (notifyResponders env w aid a) = vitals w"
  "legs (notifyResponders env w aid a) = legs w @ [RespondersLeg]"
  by (simp_all add: notifyResponders_def showEmergencyAlert_def showNotification_def Let_def)

lemma notifyFamilyMembers_effect:
  "emergencyAlerts (notifyFamilyMembers env w pid a) = emergencyAlerts w"
  "vitals (notifyFamilyMembers env w pid a) = vitals w"
  "legs (notifyFamilyMembers env w pid a) = legs w @ [FamilyLeg]"
  by (simp_all add: notifyFamilyMembers_def showVitalsAlert_def showNotification_def Let_def)

lemma notifyEmergencyContacts_effect:
  "emergencyAlerts (notifyEmergencyContacts env w pid a) = emergencyAlerts w"
  "vitals (notifyEmergencyContacts env w pid a) = vitals w"
  "legs (notifyEmergencyContacts env w pid a) = legs w @ [EmergencyContactsLeg]"
  by (simp_all add: notifyEmergencyContacts_def showNotification_def Let_def)

lemmas notify_effects =
  notifyResponders_effect notifyFamilyMembers_effect notifyEmergencyContacts_effect

text \<open>What \<open>triggerVitalsAlert\<close> and \<open>triggerSOS\<close> return, store and attempt.\<close>

lemma triggerVitalsAlert_result:
  "fst (triggerVitalsAlert env w pid v) =
     (if alertsWriteOk env then Inr (newAlertId env) else Inl StoreError)"
  by (simp add: triggerVitalsAlert_def addDoc_def Let_def)

lemma triggerVitalsAlert_failed:
  "\<not> alertsWriteOk env \<Longrightarrow> snd (triggerVitalsAlert env w pid v) = w"
  by (simp add: triggerVitalsAlert_def addDoc_def Let_def)

lemma triggerVitalsAlert_alerts:
  "alertsWriteOk env \<Longrightarrow>
   emergencyAlerts (snd (triggerVitalsAlert env w pid v)) =
     emergencyAlerts w @
       [(newAlertId env,
         \<lparr> alert_id = None,
           alert_patientId = pid,
           alert_type = Some vitals_critical,
           alertType = None,
           alert_severity = Some (calculateVitalsSeverity v),
           status = Active,
           location = locationResult env,
           vitalData = Some v,
           vitalReading = None,
           medicalProfile = gather_profile env,
           alert_message = Some (generateVitalsMessage v),
           acknowledgedBy = None,
           acknowledgedAt = None,
           responderId = None,
           responseTime = None,
           resolvedAt = None,
           createdAt = Some (now env),
           updatedAt = Some (now env) \<rparr>)]"
  by (simp add: triggerVitalsAlert_def addDoc_def Let_def notify_effects)

lemma triggerVitalsAlert_legs:
  "alertsWriteOk env \<Longrightarrow>
   legs (snd (triggerVitalsAlert env w pid v)) =
     legs w @ (if calculateVitalsSeverity v = Critical then [RespondersLeg] else []) @ [FamilyLeg]"
  by (simp add: triggerVitalsAlert_def addDoc_def Let_def notify_effects)

lemma triggerSOS_active:
  "isSOSActive m \<Longrightarrow>
   triggerSOS env m w pid msg =
     (\<lparr> alertId = currentAlertId m, success = False, message = ''SOS already active'',
        estimatedResponseTime = None \<rparr>, m, w)"
  by (simp add: triggerSOS_def)

lemma triggerSOS_idle_result:
  "\<not> isSOSActive m \<Longrightarrow>
   fst (triggerSOS env m w pid msg) =
     (if alertsWriteOk env
      then \<lparr> alertId = Some (newAlertId env), success = True,
             message = ''Emergency alert sent successfully'',
             estimatedResponseTime = Some ''5-10 minutes'' \<rparr>
      else \<lparr> alertId = Some [], success = False,
             message = ''Failed to send emergency alert: '',
             estimatedResponseTime = None \<rparr>)"
  by (simp add: triggerSOS_def addDoc_def Let_def)

lemma triggerSOS_idle_manager:
  "\<not> isSOSActive m \<Longrightarrow>
   fst (snd (triggerSOS env m w pid msg)) =
     (if alertsWriteOk env
      then m\<lparr>isSOSActive := True, currentAlertId := Some (newAlertId env)\<rparr>
      else m\<lparr>isSOSActive := False, currentAlertId := None\<rparr>)"
  by (simp add: triggerSOS_def addDoc_def Let_def)

lemma triggerSOS_idle_failed:
  "\<not> isSOSActive m \<Longrightarrow> \<not> alertsWriteOk env \<Longrightarrow> snd (snd (triggerSOS env m w pid msg)) = w"
  by (simp add: triggerSOS_def addDoc_def Let_def)

lemma triggerSOS_idle_alerts:
  "\<not> isSOSActive m \<Longrightarrow> alertsWriteOk env \<Longrightarrow>
   emergencyAlerts (snd (snd (triggerSOS env m w pid msg))) =
     emergencyAlerts w @
       [(newAlertId env,
         \<lparr> alert_id = None,
           alert_patientId = pid,
           alert_type = Some manual_sos,
           alertType = None,
           alert_severity = Some Critical,
           status = Active,
           location = locationResult env,
           vitalData = None,
           vitalReading = None,
           medicalProfile = gather_profile env,
           alert_message = Some (or_default msg ''Emergency SOS activated''),
           acknowledgedBy = None,
           acknowledgedAt = None,
           responderId = None,
           responseTime = None,
           resolvedAt = None,
           createdAt = Some (now env),
           updatedAt = Some (now env) \<rparr>)]"
  by (simp add: triggerSOS_def addDoc_def Let_def notify_effects split: option.split)

lemma triggerSOS_idle_legs:
  "\<not> isSOSActive m \<Longrightarrow> alertsWriteOk env \<Longrightarrow>
   legs (snd (snd (triggerSOS env m w pid msg))) =
     legs w @ [RespondersLeg]
       @ (case gather_profile env of
            None \<Rightarrow> []
          | Some p \<Rightarrow> if emergencyContacts p \<noteq> None then [EmergencyContactsLeg] else [])"
  by (simp add: triggerSOS_def addDoc_def Let_def notify_effects split: option.split)


text \<open>
  Claim C7. While a session is active \<open>triggerSOS\<close> returns the failure response
  \<open>SOS already active\<close> with the stored alert identifier and changes neither the
  manager nor the store; while no session is active \<open>cancelSOS\<close> returns false and
  changes nothing. In particular, after a successful \<open>triggerSOS\<close> from idle a second
  \<open>triggerSOS\<close> fails, carries the identifier of the first alert, and leaves the manager
  and the store (hence the set of alerts) as the first call left them.
\<close>

theorem sos_session_two_states:
  "(isSOSActive m \<longrightarrow>
      triggerSOS env m w pid msg =
        (\<lparr> alertId = currentAlertId m, success = False, message = ''SOS already active'',
           estimatedResponseTime = None \<rparr>, m, w))
   \<and> (\<not> isSOSActive m \<longrightarrow> cancelSOS env m w reason = (False, m, w))
   \<and> (\<not> isSOSActive m \<and> alertsWriteOk env \<longrightarrow>
        success (fst (triggerSOS env m w pid msg))
        \<and> alertId (fst (triggerSOS env m w pid msg)) = Some (newAlertId env)
        \<and> isSOSActive (fst (snd (triggerSOS env m w pid msg)))
        \<and> \<not> success (fst (triggerSOS env' (fst (snd (triggerSOS env m w pid msg)))
                            (snd (snd (triggerSOS env m w pid msg))) pid' msg'))
        \<and> alertId (fst (triggerSOS env' (fst (snd (triggerSOS env m w pid msg)))
                            (snd (snd (triggerSOS env m w pid msg))) pid' msg'))
            = Some (newAlertId env)
        \<and> snd (triggerSOS env' (fst (snd (triggerSOS env m w pid msg)))
                  (snd (snd (triggerSOS env m w pid msg))) pid' msg')
            = snd (triggerSOS env m w pid msg))"
proof -
  have active: "isSOSActive m \<longrightarrow>
      triggerSOS env m w pid msg =
        (\<lparr> alertId = currentAlertId m, success = False, message = ''SOS already active'',
           estimatedResponseTime = None \<rparr>, m, w)"
    by (simp add: triggerSOS_active)
  have idle: "\<not> isSOSActive m \<longrightarrow> cancelSOS env m w reason = (False, m, w)"
    by (simp add: cancelSOS_def)
  have twice: "\<not> isSOSActive m \<and> alertsWriteOk env \<longrightarrow>
        success (fst (triggerSOS env m w pid msg))
        \<and> alertId (fst (triggerSOS env m w pid msg)) = Some (newAlertId env)
        \<and> isSOSActive (fst (snd (triggerSOS env m w pid msg)))
        \<and> \<not> success (fst (triggerSOS env' (fst (snd (triggerSOS env m w pid msg)))
                            (snd (snd (triggerSOS env m w pid msg))) pid' msg'))
        \<and> alertId (fst (triggerSOS env' (fst (snd (triggerSOS env m w pid msg)))
                            (snd (snd (triggerSOS env m w pid msg))) pid' msg'))
            = Some (newAlertId env)
        \<and> snd (triggerSOS env' (fst (snd (triggerSOS env m w pid msg)))
                  (snd (snd (triggerSOS env m w pid msg))) pid' msg')
            = snd (triggerSOS env m w pid msg)"
  proof
    assume h: "\<not> isSOSActive m \<and> alertsWriteOk env"
    let ?m1 = "fst (snd (triggerSOS env m w pid msg))"
    let ?w1 = "snd (snd (triggerSOS env m w pid msg))"
    have m1: "?m1 = m\<lparr>isSOSActive := True, currentAlertId := Some (newAlertId env)\<rparr>"
      using h by (simp add: triggerSOS_idle_manager)
    have act: "isSOSActive ?m1" by (simp add: m1)
    have second: "triggerSOS env' ?m1 ?w1 pid' msg' =
        (\<lparr> alertId = currentAlertId ?m1, success = False, message = ''SOS already active'',
           estimatedResponseTime = None \<rparr>, ?m1, ?w1)"
      by (rule triggerSOS_active [OF act])
    show "success (fst (triggerSOS env m w pid msg))
        \<and> alertId (fst (triggerSOS env m w pid msg)) = Some (newAlertId env)
        \<and> isSOSActive ?m1
        \<and> \<not> success (fst (triggerSOS env' ?m1 ?w1 pid' msg'))
        \<and> alertId (fst (triggerSOS env' ?m1 ?w1 pid' msg')) = Some (newAlertId env)
        \<and> snd (triggerSOS env' ?m1 ?w1 pid' msg') = snd (triggerSOS env m w pid msg)"
      using h act by (simp add: second triggerSOS_idle_result) (simp add: m1)
  qed
  from active idle twice show ?thesis by blast
qed

theorem sos_session_two_states_witness:
  "\<not> isSOSActive idle \<and> alertsWriteOk env_ok
   \<and> cancelSOS env_ok idle world0 None = (False, idle, world0)
   \<and> success (fst (triggerSOS env_ok idle world0 ''P1'' None))
   \<and> isSOSActive (fst (snd (triggerSOS env_ok idle world0 ''P1'' None)))
   \<and> \<not> success (fst (triggerSOS env_ok (fst (snd (triggerSOS env_ok idle world0 ''P1'' None)))
                       (snd (snd (triggerSOS env_ok idle world0 ''P1'' None))) ''P1'' None))
   \<and> alertId (fst (triggerSOS env_ok (fst (snd (triggerSOS env_ok idle world0 ''P1'' None)))
                       (snd (snd (triggerSOS env_ok idle world0 ''P1'' None))) ''P1'' None))
       = Some ''a1''
   \<and> map fst (emergencyAlerts (snd (snd
         (triggerSOS env_ok (fst (snd (triggerSOS env_ok idle world0 ''P1'' None)))
            (snd (snd (triggerSOS env_ok idle world0 ''P1'' None))) ''P1'' None)))) = [''a1'']"
proof -
  have a: "\<not> isSOSActive idle" by (simp add: idle_def)
  have b: "alertsWriteOk env_ok" "newAlertId env_ok = ''a1''" by (simp_all add: env_ok_def)
  have c: "map fst (emergencyAlerts (snd (snd (triggerSOS env_ok idle world0 ''P1'' None))))
             = [''a1'']"
    by (simp add: triggerSOS_idle_alerts [OF a b(1)] b(2) world0_def)
  show ?thesis
    using sos_session_two_states
      [of idle env_ok world0 "''P1''" None None env_ok "''P1''" None] a b c
    by simp
qed


text \<open>
  Claim C8 as stated fails: a vitals alert of severity high (heart rate 160) is
  dispatched with the family leg only, the responders are not notified; and a manual
  SOS is dispatched with the responder and emergency-contact legs, without the family
  leg.
\<close>

theorem responders_leg_skipped_counterexample:
  "calculateVitalsSeverity ((bare_reading ''P1'')\<lparr>heartRate := Some 160\<rparr>) = High
   \<and> fst (triggerVitalsAlert env_ok world0 ''P1'' ((bare_reading ''P1'')\<lparr>heartRate := Some 160\<rparr>))
       = Inr ''a1''
   \<and> legs (snd (triggerVitalsAlert env_ok world0 ''P1''
         ((bare_reading ''P1'')\<lparr>heartRate := Some 160\<rparr>))) = [FamilyLeg]
   \<and> alertId (fst (triggerSOS env_ok idle world0 ''P1'' None)) = Some ''a1''
   \<and> legs (snd (snd (triggerSOS env_ok idle world0 ''P1'' None)))
       = [RespondersLeg, EmergencyContactsLeg]"
proof -
  have sev: "calculateVitalsSeverity ((bare_reading ''P1'')\<lparr>heartRate := Some 160\<rparr>) = High"
    by (simp add: calculateVitalsSeverity_def bare_reading_def)
  have a: "\<not> isSOSActive idle" by (simp add: idle_def)
  have b: "alertsWriteOk env_ok" "newAlertId env_ok = ''a1''" by (simp_all add: env_ok_def)
  have p: "gather_profile env_ok = Some profile_P1"
    by (simp add: gather_profile_def env_ok_def)
  show ?thesis
    by (simp add: sev triggerVitalsAlert_result triggerVitalsAlert_legs [OF b(1)]
        triggerSOS_idle_result [OF a] triggerSOS_idle_legs [OF a b(1)] b p world0_def
        profile_P1_def)
qed

text \<open>
  Claim C8, as amended. For a vitals alert that was persisted the family leg is always
  attempted, the responder leg exactly when the severity is critical, and no other leg.
  For a manual SOS that was persisted the responder leg is always attempted and the
  emergency-contact leg exactly when the gathered profile has an
  \<open>emergencyContacts\<close> field.
\<close>

theorem fan_out_legs_by_trigger:
  assumes "alertsWriteOk env"
  shows "legs (snd (triggerVitalsAlert env w pid v)) =
           legs w @ (if calculateVitalsSeverity v = Critical then [RespondersLeg] else [])
             @ [FamilyLeg]
    \<and> (\<not> isSOSActive m \<longrightarrow>
         (\<exists>new. legs (snd (snd (triggerSOS env m w pid msg))) = legs w @ new
            \<and> RespondersLeg \<in> set new
            \<and> (EmergencyContactsLeg \<in> set new) =
                (\<exists>p. gather_profile env = Some p \<and> emergencyContacts p \<noteq> None)))"
proof -
  have "\<exists>new. legs (snd (snd (triggerSOS env m w pid msg))) = legs w @ new
            \<and> RespondersLeg \<in> set new
            \<and> (EmergencyContactsLeg \<in> set new) =
                (\<exists>p. gather_profile env = Some p \<and> emergencyContacts p \<noteq> None)"
    if idle: "\<not> isSOSActive m"
  proof (cases "gather_profile env")
    case None
    then show ?thesis
      by (simp add: triggerSOS_idle_legs [OF idle assms])
  next
    case (Some p)
    then show ?thesis
      by (cases "emergencyContacts p") (simp_all add: triggerSOS_idle_legs [OF idle assms])
  qed
  then show ?thesis
    by (simp add: triggerVitalsAlert_legs [OF assms])
qed

theorem fan_out_legs_by_trigger_witness:
  "alertsWriteOk env_ok \<and> \<not> isSOSActive idle
   \<and> calculateVitalsSeverity
        ((bare_reading ''P1'')\<lparr>heartRate := Some 160, oxygenSaturation := Some 80\<rparr>) = Critical
   \<and> legs (snd (triggerVitalsAlert env_ok world0 ''P1''
        ((bare_reading ''P1'')\<lparr>heartRate := Some 160, oxygenSaturation := Some 80\<rparr>)))
       = [RespondersLeg, FamilyLeg]
   \<and> RespondersLeg \<in> set (legs (snd (snd (triggerSOS env_ok idle world0 ''P1'' None))))"
proof -
  have sev: "calculateVitalsSeverity
      ((bare_reading ''P1'')\<lparr>heartRate := Some 160, oxygenSaturation := Some 80\<rparr>) = Critical"
    by (simp add: calculateVitalsSeverity_def bare_reading_def)
  have a: "\<not> isSOSActive idle" by (simp add: idle_def)
  have b: "alertsWriteOk env_ok" by (simp add: env_ok_def)
  have w: "legs world0 = []" by (simp add: world0_def)
  from fan_out_legs_by_trigger
    [OF b, of world0 "''P1''"
      "(bare_reading ''P1'')\<lparr>heartRate := Some 160, oxygenSaturation := Some 80\<rparr>" idle None]
  show ?thesis
    using a b sev w by auto
qed

text \<open>
  With the SDK's validation taken into account, a dispatch succeeds exactly when the
  store accepts the write and the alert literal holds no \<open>undefined\<close> property; when
  it fails nothing is stored. A failed enrichment leaves such a property.
\<close>

lemma sdk_triggerVitalsAlert_result:
  "fst (sdk_triggerVitalsAlert env w pid v) =
     (if alertsWriteOk env \<and> vitals_alert_undefined env = []
      then Inr (newAlertId env) else Inl StoreError)"
  by (simp add: sdk_triggerVitalsAlert_def sdk_validated_def triggerVitalsAlert_result)

lemma sdk_triggerVitalsAlert_failed:
  "vitals_alert_undefined env \<noteq> [] \<Longrightarrow> snd (sdk_triggerVitalsAlert env w pid v) = w"
  by (simp add: sdk_triggerVitalsAlert_def sdk_validated_def triggerVitalsAlert_failed)

lemma sdk_triggerSOS_result:
  "\<not> isSOSActive m \<Longrightarrow>
   success (fst (sdk_triggerSOS env m w pid msg)) =
     (alertsWriteOk env \<and> sos_alert_undefined env = [])"
  by (simp add: sdk_triggerSOS_def sdk_validated_def triggerSOS_idle_result)

lemma sdk_triggerSOS_failed:
  "\<not> isSOSActive m \<Longrightarrow> sos_alert_undefined env \<noteq> [] \<Longrightarrow>
   sdk_triggerSOS env m w pid msg =
     (\<lparr> alertId = Some [], success = False, message = ''Failed to send emergency alert: '',
        estimatedResponseTime = None \<rparr>,
      m\<lparr>isSOSActive := False, currentAlertId := None\<rparr>, w)"
  by (simp add: sdk_triggerSOS_def sdk_validated_def triggerSOS_def addDoc_def Let_def)

lemma failed_enrichment_leaves_undefined:
  "locationResult env = None \<or> profileResult env = ProfileThrows \<Longrightarrow>
   vitals_alert_undefined env \<noteq> [] \<and> sos_alert_undefined env \<noteq> []"
  by (auto simp add: vitals_alert_undefined_def sos_alert_undefined_def
      split: option.split profile_outcome.split)

lemma failed_enrichment_fails_dispatch:
  assumes "locationResult env = None \<or> profileResult env = ProfileThrows"
  shows "sdk_triggerVitalsAlert env w pid v = (Inl StoreError, w)"
    and "\<not> isSOSActive m \<Longrightarrow> \<not> success (fst (sdk_triggerSOS env m w pid msg))"
    and "\<not> isSOSActive m \<Longrightarrow> snd (snd (sdk_triggerSOS env m w pid msg)) = w"
proof -
  from failed_enrichment_leaves_undefined [OF assms]
  have u: "vitals_alert_undefined env \<noteq> []" "sos_alert_undefined env \<noteq> []"
    by simp_all
  have "fst (sdk_triggerVitalsAlert env w pid v) = Inl StoreError"
    by (simp add: sdk_triggerVitalsAlert_result u)
  moreover have "snd (sdk_triggerVitalsAlert env w pid v) = w"
    by (rule sdk_triggerVitalsAlert_failed [OF u(1)])
  ultimately show "sdk_triggerVitalsAlert env w pid v = (Inl StoreError, w)"
    by (simp add: prod_eq_iff)
  show "\<not> isSOSActive m \<Longrightarrow> \<not> success (fst (sdk_triggerSOS env m w pid msg))"
    by (simp add: sdk_triggerSOS_result u)
  show "\<not> isSOSActive m \<Longrightarrow> snd (snd (sdk_triggerSOS env m w pid msg)) = w"
    by (simp add: sdk_triggerSOS_failed u)
qed

text \<open>
  Claim C9. The claim asks that a failed enrichment never makes the dispatch fail, the
  alert being persisted with the field \<open>undefined\<close>, and the code says so in its
  comments (\<open>optional, don't fail if unavailable\<close>). It does not happen. With the
  store accepting writes, a found profile and working notifications, and only the
  location promise rejected, the alert literal holds \<open>location: undefined\<close>, the SDK
  refuses the write, \<open>triggerVitalsAlert\<close> rethrows and \<open>triggerSOS\<close> returns a
  failure response with an empty identifier and resets the session; nothing is stored.
  The same happens to \<open>triggerSOS\<close> when only the profile lookup throws. With the
  location available the same calls store the alert and return its identifier.
\<close>

theorem enrichment_failure_fails_dispatch:
  "alertsWriteOk env_no_location
   \<and> locationResult env_no_location = None
   \<and> vitals_alert_undefined env_no_location = [''location'']
   \<and> sdk_triggerVitalsAlert env_no_location world0 ''P1''
        ((bare_reading ''P1'')\<lparr>heartRate := Some 180\<rparr>) = (Inl StoreError, world0)
   \<and> sos_alert_undefined env_no_location = [''location'']
   \<and> sdk_triggerSOS env_no_location idle world0 ''P1'' None =
        (\<lparr> alertId = Some [], success = False, message = ''Failed to send emergency alert: '',
           estimatedResponseTime = None \<rparr>, idle, world0)
   \<and> alertsWriteOk env_no_profile
   \<and> sos_alert_undefined env_no_profile = [''medicalProfile'']
   \<and> sdk_triggerSOS env_no_profile idle world0 ''P1'' None =
        (\<lparr> alertId = Some [], success = False, message = ''Failed to send emergency alert: '',
           estimatedResponseTime = None \<rparr>, idle, world0)
   \<and> fst (sdk_triggerVitalsAlert env_ok world0 ''P1''
        ((bare_reading ''P1'')\<lparr>heartRate := Some 180\<rparr>)) = Inr ''a1''
   \<and> success (fst (sdk_triggerSOS env_ok idle world0 ''P1'' None))"
proof -
  have idle: "\<not> isSOSActive idle" "idle\<lparr>isSOSActive := False, currentAlertId := None\<rparr> = idle"
    by (simp_all add: idle_def)
  have loc: "alertsWriteOk env_no_location" "locationResult env_no_location = None"
    "vitals_alert_undefined env_no_location = [''location'']"
    "sos_alert_undefined env_no_location = [''location'']"
    by (simp_all add: env_no_location_def env_ok_def vitals_alert_undefined_def
        sos_alert_undefined_def)
  have prof: "alertsWriteOk env_no_profile"
    "sos_alert_undefined env_no_profile = [''medicalProfile'']"
    by (simp_all add: env_no_profile_def env_ok_def sos_alert_undefined_def)
  have ok: "alertsWriteOk env_ok" "newAlertId env_ok = ''a1''"
    "vitals_alert_undefined env_ok = []" "sos_alert_undefined env_ok = []"
    by (simp_all add: env_ok_def vitals_alert_undefined_def sos_alert_undefined_def
        location_undefined_def here_def)
  have v: "sdk_triggerVitalsAlert env_no_location world0 ''P1''
        ((bare_reading ''P1'')\<lparr>heartRate := Some 180\<rparr>) = (Inl StoreError, world0)"
    by (simp add: prod_eq_iff sdk_triggerVitalsAlert_result sdk_triggerVitalsAlert_failed loc)
  have s1: "sdk_triggerSOS env_no_location idle world0 ''P1'' None =
        (\<lparr> alertId = Some [], success = False, message = ''Failed to send emergency alert: '',
           estimatedResponseTime = None \<rparr>, idle, world0)"
    by (simp add: sdk_triggerSOS_failed idle loc)
  have s2: "sdk_triggerSOS env_no_profile idle world0 ''P1'' None =
        (\<lparr> alertId = Some [], success = False, message = ''Failed to send emergency alert: '',
           estimatedResponseTime = None \<rparr>, idle, world0)"
    by (simp add: sdk_triggerSOS_failed idle prof)
  have g: "fst (sdk_triggerVitalsAlert env_ok world0 ''P1''
        ((bare_reading ''P1'')\<lparr>heartRate := Some 180\<rparr>)) = Inr ''a1''"
    "success (fst (sdk_triggerSOS env_ok idle world0 ''P1'' None))"
    by (simp_all add: sdk_triggerVitalsAlert_result sdk_triggerSOS_result idle ok)
  from loc prof v s1 s2 g show ?thesis by simp
qed

text \<open>A metric whose value is zero counts like an absent one in the severity.\<close>

lemma calculateVitalsSeverity_skips_zero:
  "calculateVitalsSeverity (u\<lparr>heartRate := Some 0\<rparr>) = calculateVitalsSeverity (u\<lparr>heartRate := None\<rparr>)"
  "calculateVitalsSeverity (u\<lparr>oxygenSaturation := Some 0\<rparr>)
     = calculateVitalsSeverity (u\<lparr>oxygenSaturation := None\<rparr>)"
  "calculateVitalsSeverity (u\<lparr>temperature := Some 0\<rparr>)
     = calculateVitalsSeverity (u\<lparr>temperature := None\<rparr>)"
  by (simp_all add: calculateVitalsSeverity_def)

text \<open>
  Claim C10. A reading whose heart rate is present with value 0, and which has no
  oxygen saturation and no temperature, is an emergency for \<open>checkVitalThresholds\<close>
  under the default thresholds and has severity low for
  \<open>calculateVitalsSeverity\<close>, which treats every zero-valued metric like an absent
  one; dispatched through \<open>triggerVitalsAlert\<close>, its alert is stored with severity low.
\<close>

theorem zero_heart_rate_emergency_but_low:
  assumes "heartRate v = Some 0" "oxygenSaturation v = None" "temperature v = None"
  shows "checkVitalThresholds v DEFAULT_THRESHOLDS
    \<and> calculateVitalsSeverity v = Low
    \<and> calculateVitalsSeverity (u\<lparr>heartRate := Some 0\<rparr>)
        = calculateVitalsSeverity (u\<lparr>heartRate := None\<rparr>)
    \<and> calculateVitalsSeverity (u\<lparr>oxygenSaturation := Some 0\<rparr>)
        = calculateVitalsSeverity (u\<lparr>oxygenSaturation := None\<rparr>)
    \<and> calculateVitalsSeverity (u\<lparr>temperature := Some 0\<rparr>)
        = calculateVitalsSeverity (u\<lparr>temperature := None\<rparr>)
    \<and> (alertsWriteOk env \<longrightarrow>
         map (alert_severity \<circ> snd) (emergencyAlerts (snd (triggerVitalsAlert env w pid v)))
           = map (alert_severity \<circ> snd) (emergencyAlerts w) @ [Some Low])"
proof -
  have em: "checkVitalThresholds v DEFAULT_THRESHOLDS"
    using assms(1)
    by (simp add: checkVitalThresholds_eq_spec classify_spec_def inside_def
        DEFAULT_THRESHOLDS_def)
  have low: "calculateVitalsSeverity v = Low"
    using assms by (simp add: calculateVitalsSeverity_def)
  show ?thesis
    by (simp add: em low calculateVitalsSeverity_skips_zero triggerVitalsAlert_alerts)
qed

theorem zero_heart_rate_emergency_but_low_witness:
  "heartRate ((bare_reading ''P1'')\<lparr>heartRate := Some 0\<rparr>) = Some 0
   \<and> checkVitalThresholds ((bare_reading ''P1'')\<lparr>heartRate := Some 0\<rparr>) DEFAULT_THRESHOLDS
   \<and> calculateVitalsSeverity ((bare_reading ''P1'')\<lparr>heartRate := Some 0\<rparr>) = Low
   \<and> alertsWriteOk env_ok
   \<and> map (alert_severity \<circ> snd) (emergencyAlerts (snd (triggerVitalsAlert env_ok world0 ''P1''
        ((bare_reading ''P1'')\<lparr>heartRate := Some 0\<rparr>)))) = [Some Low]"
proof -
  have h: "heartRate ((bare_reading ''P1'')\<lparr>heartRate := Some 0\<rparr>) = Some 0"
    "oxygenSaturation ((bare_reading ''P1'')\<lparr>heartRate := Some 0\<rparr>) = None"
    "temperature ((bare_reading ''P1'')\<lparr>heartRate := Some 0\<rparr>) = None"
    by (simp_all add: bare_reading_def)
  have b: "alertsWriteOk env_ok" by (simp add: env_ok_def)
  have w: "emergencyAlerts world0 = []" by (simp add: world0_def)
  from zero_heart_rate_emergency_but_low [OF h, of "bare_reading ''P1''" env_ok world0 "''P1''"]
  show ?thesis
    using h(1) b w by simp
qed


end
